theory Spec2Isabelle
  imports Main "HOL-Library.Word"
begin

section \<open>Process state of \<open>cmd/adbfs/main.go\<close>\<close>

text \<open>
  The package-level variables of \<open>main.go\<close> are \<open>config\<close>, \<open>server\<close> (a pointer that is
  \<open>nil\<close> until \<open>nodefs.MountRoot\<close> returns), and the two \<open>fs.AtomicBool\<close> flags
  \<open>mounted\<close> and \<open>unmounted\<close>. Everything the program does to the outside world
  (log lines, calls on the FUSE server) is recorded, in order, in a trace of effects.
\<close>

type_synonym fuse_Server = nat

datatype effect =
    Log string
  | ProfilerListening
  | MountRoot string
  | Serve
  | WaitMount
  | Unmount

datatype panic = Panic string

record proc =
  server :: "fuse_Server option"
  mounted :: bool
  unmounted :: bool
  effects :: "effect list"

definition init_proc :: proc where
  "init_proc = \<lparr>server = None, mounted = False, unmounted = False, effects = []\<rparr>"

definition emit :: "effect \<Rightarrow> proc \<Rightarrow> proc" where
  "emit e s = s\<lparr>effects := effects s @ [e]\<rparr>"

definition unmount_calls :: "proc \<Rightarrow> nat" where
  "unmount_calls s = count_list (effects s) Unmount"

subsection \<open>The atomic boolean\<close>

text \<open>
  Modelled from the spec: the type \<open>fs.AtomicBool\<close> is declared in the \<open>fs\<close> package, whose
  sources are not part of \<open>src/\<close>. The spec describes both flags as "atomic compare-and-swap
  booleans": \<open>CompareAndSwap old new\<close> stores \<open>new\<close> only when the flag currently holds
  \<open>old\<close> and reports whether it did; \<open>Value\<close> reads the flag. The pair returned is
  (swapped, flag afterwards).
\<close>

definition CompareAndSwap :: "bool \<Rightarrow> bool \<Rightarrow> bool \<Rightarrow> bool \<times> bool" where
  "CompareAndSwap old new b = (if b = old then (True, new) else (False, b))"

definition Value :: "bool \<Rightarrow> bool" where
  "Value b = b"

subsection \<open>\<open>unmountServer\<close> and \<open>handleDeviceDisconnected\<close>, run without interruption\<close>

fun unmountServer :: "proc \<Rightarrow> panic + proc" where
  "unmountServer s =
     (if server s = None then Inl (Panic ''attempted to unmount server before creating it'')
      else if \<not> Value (mounted s) then Inl (Panic ''attempted to unmount server before mounting it'')
      else
        (case CompareAndSwap False True (unmounted s) of
           (swapped, u) \<Rightarrow>
             (let s1 = s\<lparr>unmounted := u\<rparr> in
              if swapped
              then Inr (emit (Log ''unmounted.'') (emit Unmount (emit (Log ''unmounting...'') s1)))
              else Inr s1)))"

fun handleDeviceDisconnected :: "proc \<Rightarrow> panic + proc" where
  "handleDeviceDisconnected s =
     (if \<not> Value (mounted s) \<or> Value (unmounted s) then Inr s
      else unmountServer (emit (Log ''device disconnected, unmounting...'') s))"

subsection \<open>The same two functions, one statement at a time\<close>

text \<open>
  The unmount path is entered from several goroutines: \<open>main\<close> runs the deferred
  \<open>unmountServer()\<close> when it returns (after a signal, or after the server finished), and the
  device watcher calls \<open>handleDeviceDisconnected\<close>. To speak about interleavings, each
  invocation is a thread with a program counter; one step executes one statement (one read
  of a flag, the compare-and-swap, one log line, or the call \<open>server.Unmount()\<close>), and a
  schedule says which thread moves next. The short-circuit \<open>||\<close> of the guard in
  \<open>handleDeviceDisconnected\<close> reads the two flags in two steps.

  The call \<open>unmountServer()\<close> that \<open>main\<close> defers is the last thing the process does:
  \<open>Deferred p\<close> is \<open>main\<close> on its way out with that call at \<open>p\<close>, and when the call
  returns \<open>main\<close> returns and the process has \<open>Exited\<close>, whatever the other goroutines
  were doing. A panic inside the deferred call is a panic of the process.
\<close>

datatype pc =
    HD_mounted      \<comment> \<open>\<open>handleDeviceDisconnected\<close>: about to read \<open>mounted.Value()\<close>\<close>
  | HD_unmounted    \<comment> \<open>about to read \<open>unmounted.Value()\<close>\<close>
  | HD_log          \<comment> \<open>about to log "device disconnected, unmounting..."\<close>
  | US_server       \<comment> \<open>\<open>unmountServer\<close>: about to test \<open>server == nil\<close>\<close>
  | US_mounted      \<comment> \<open>about to test \<open>!mounted.Value()\<close>\<close>
  | US_cas          \<comment> \<open>about to run \<open>unmounted.CompareAndSwap(false, true)\<close>\<close>
  | US_log1         \<comment> \<open>won the swap; about to log "unmounting..."\<close>
  | US_unmount      \<comment> \<open>about to call \<open>server.Unmount()\<close>\<close>
  | US_log2         \<comment> \<open>about to log "unmounted."\<close>
  | Returned
  | Panicked panic
  | Deferred pc     \<comment> \<open>\<open>main\<close> is returning; its deferred \<open>unmountServer()\<close> is at the given point\<close>
  | Exited          \<comment> \<open>\<open>main\<close> has returned\<close>

fun after_defer :: "pc \<Rightarrow> pc" where
  "after_defer Returned = Exited"
| "after_defer (Panicked p) = Panicked p"
| "after_defer q = Deferred q"

fun tstep :: "proc \<Rightarrow> pc \<Rightarrow> proc \<times> pc" where
  "tstep s HD_mounted = (if \<not> Value (mounted s) then (s, Returned) else (s, HD_unmounted))"
| "tstep s HD_unmounted = (if Value (unmounted s) then (s, Returned) else (s, HD_log))"
| "tstep s HD_log = (emit (Log ''device disconnected, unmounting...'') s, US_server)"
| "tstep s US_server =
     (if server s = None
      then (s, Panicked (Panic ''attempted to unmount server before creating it''))
      else (s, US_mounted))"
| "tstep s US_mounted =
     (if \<not> Value (mounted s)
      then (s, Panicked (Panic ''attempted to unmount server before mounting it''))
      else (s, US_cas))"
| "tstep s US_cas =
     (case CompareAndSwap False True (unmounted s) of
        (swapped, u) \<Rightarrow> (s\<lparr>unmounted := u\<rparr>, if swapped then US_log1 else Returned))"
| "tstep s US_log1 = (emit (Log ''unmounting...'') s, US_unmount)"
| "tstep s US_unmount = (emit Unmount s, US_log2)"
| "tstep s US_log2 = (emit (Log ''unmounted.'') s, Returned)"
| "tstep s Returned = (s, Returned)"
| "tstep s (Panicked p) = (s, Panicked p)"
| "tstep s (Deferred p) = (case tstep s p of (s', q) \<Rightarrow> (s', after_defer q))"
| "tstep s Exited = (s, Exited)"

fun is_Panicked :: "pc \<Rightarrow> bool" where
  "is_Panicked (Panicked p) = True"
| "is_Panicked _ = False"

fun is_Exited :: "pc \<Rightarrow> bool" where
  "is_Exited Exited = True"
| "is_Exited _ = False"

text \<open>
  A panic in any goroutine ends the whole process, and so does the return of \<open>main\<close>: once a
  thread has panicked, or \<open>main\<close> has returned, nobody moves any more, wherever the other
  threads stand. A schedule entry that names no thread is skipped.
\<close>

definition sched :: "nat \<Rightarrow> proc \<times> pc list \<Rightarrow> proc \<times> pc list" where
  "sched i w =
     (case w of (s, pcs) \<Rightarrow>
        if i < length pcs \<and> \<not> list_ex is_Panicked pcs \<and> \<not> list_ex is_Exited pcs
        then (case tstep s (pcs ! i) of (s', pc') \<Rightarrow> (s', pcs[i := pc']))
        else (s, pcs))"

fun run :: "nat list \<Rightarrow> proc \<times> pc list \<Rightarrow> proc \<times> pc list" where
  "run [] w = w"
| "run (i # sch) w = run sch (sched i w)"

text \<open>
  What triggers an invocation: a signal and the end of the server both make \<open>main\<close> return,
  which runs the deferred \<open>unmountServer()\<close> and then ends the process; the watcher's
  callback is \<open>handleDeviceDisconnected\<close>, on a goroutine of its own.
\<close>

datatype trigger = Signal | ServerFinished | DeviceDisconnected

fun entry :: "trigger \<Rightarrow> pc" where
  "entry Signal = Deferred US_server"
| "entry ServerFinished = Deferred US_server"
| "entry DeviceDisconnected = HD_mounted"

section \<open>\<open>main\<close> and its helpers\<close>

text \<open>
  \<open>error\<close> values are the ones \<open>main.go\<close> builds with \<open>errors.New\<close>, plus whatever an
  external call returned. \<open>fmt.Sprint\<close> puts no space between two operands when one of them is
  a string, so the message for a path is the literal followed by the path.
  \<open>ErrorAfter msg d\<close> stands for \<open>errors.New(fmt.Sprint(msg, d))\<close> with \<open>d\<close> a
  \<open>time.Duration\<close> in nanoseconds; the text of a duration is the standard library's business.
\<close>

datatype error = Error string | ErrorAfter string int

datatype exit =
    Fatal error           \<comment> \<open>\<open>cli.Log.Fatal\<close>/\<open>Fatalln\<close>: print and \<open>os.Exit(1)\<close>, deferred calls do not run\<close>
  | MainReturned          \<comment> \<open>\<open>main\<close> returned and its deferred call completed\<close>
  | MainPanicked panic
  | Blocked               \<comment> \<open>the \<open>select\<close> loop waits and no event ever arrives\<close>

definition Second :: int where
  "Second = 1000000000"

definition StartTimeout :: int where
  "StartTimeout = 5 * Second"

record AdbfsConfig =
  DeviceSerial :: string
  Mountpoint :: string
  ServeDebug :: bool
  CacheTtl :: int
  ConnectionPoolSize :: int

record os_FileInfo =
  IsDir :: bool

datatype start_event = ServerReady | ServerDone | TimerFired

datatype os_Signal = Interrupt | Kill | OtherSignal nat

datatype loop_event = GotSignal os_Signal | ServerDoneClosed

text \<open>
  The environment of one run: the configuration left behind by \<open>cli.Initialize\<close>, the answers
  of the external calls, which case the \<open>select\<close> of \<open>startServer\<close> proceeds with, and the
  events the \<open>select\<close> loop of \<open>main\<close> receives, in order.
\<close>

record env =
  config :: AdbfsConfig
  filepath_Abs :: "string \<Rightarrow> error + string"
  os_Stat :: "string \<Rightarrow> error + os_FileInfo"
  net_ListenTCP :: "error option"
  NewAdbFileSystem :: "error option"
  nodefs_MountRoot :: "string \<Rightarrow> error + fuse_Server"
  start_select :: start_event
  loop_events :: "loop_event list"

definition checkValidMountpoint :: "(string \<Rightarrow> error + os_FileInfo) \<Rightarrow> string \<Rightarrow> error option" where
  "checkValidMountpoint stat path =
     (case stat path of
        Inl err \<Rightarrow> Some err
      | Inr info \<Rightarrow>
          if \<not> IsDir info then Some (Error (''path is not a directory:'' @ path)) else None)"

definition initializeProfiler :: "env \<Rightarrow> proc \<Rightarrow> proc" where
  "initializeProfiler e s =
     (if \<not> ServeDebug (config e) then s
      else
        (let s1 = emit (Log ''starting profiling server...'') s in
         case net_ListenTCP e of
           Some err \<Rightarrow> emit (Log ''error starting profiling server:'') s1
         | None \<Rightarrow> emit (Log ''profiling server listening on'') (emit ProfilerListening s1)))"

definition initializeCache :: "proc \<Rightarrow> proc" where
  "initializeCache s = emit (Log ''stat cache ttl:'') s"

definition initializeFileSystem :: "env \<Rightarrow> proc \<Rightarrow> error + proc" where
  "initializeFileSystem e s =
     (case NewAdbFileSystem e of Some err \<Rightarrow> Inl err | None \<Rightarrow> Inr s)"

text \<open>
  \<open>startServer\<close> starts two goroutines, one calling \<open>server.Serve()\<close> and one calling
  \<open>server.WaitMount()\<close>. \<open>Serve\<close> and \<open>WaitMount\<close> in the trace record the two \<open>go\<close>
  statements, in program order; how the goroutines then interleave with \<open>main\<close> is not
  traced, and of what the \<open>Serve\<close> goroutine logs only the "server finished." that precedes a
  \<open>serverDone\<close> seen by a \<open>select\<close> appears.
\<close>

definition startServer :: "env \<Rightarrow> int \<Rightarrow> proc \<Rightarrow> (error + unit) \<times> proc" where
  "startServer e startTimeout s =
     (let s1 = emit WaitMount (emit Serve s) in
      case start_select e of
        ServerReady \<Rightarrow> (Inr (), emit (Log ''server ready.'') s1)
      | ServerDone \<Rightarrow> (Inl (Error ''unknown error''), emit (Log ''server finished.'') s1)
      | TimerFired \<Rightarrow> (Inl (ErrorAfter ''server failed to start after'' startTimeout), s1))"

text \<open>
  The \<open>for { select { ... } }\<close> loop of \<open>main\<close>: \<open>(True, s)\<close> when \<open>main\<close> returns,
  \<open>(False, s)\<close> when the events run out and the loop waits forever.
\<close>

fun wait_loop :: "loop_event list \<Rightarrow> proc \<Rightarrow> bool \<times> proc" where
  "wait_loop [] s = (False, s)"
| "wait_loop (GotSignal sig # evs) s =
     (let s1 = emit (Log ''got signal'') s in
      case sig of
        OtherSignal n \<Rightarrow> wait_loop evs s1
      | _ \<Rightarrow> (True, emit (Log ''exiting...'') s1))"
| "wait_loop (ServerDoneClosed # evs) s =
     (True, emit (Log ''server done channel closed.'') (emit (Log ''server finished.'') s))"

text \<open>
  \<open>main\<close>, from the state of the globals at its start (\<open>init_proc\<close> in a real run) to the way
  the process ends and the state then.
\<close>

definition main :: "env \<Rightarrow> proc \<Rightarrow> exit \<times> proc" where
  "main e s =
     (if DeviceSerial (config e) = [] then
        (Fatal (Error ''Device serial must be specified. Run with -h.''), s)
      else if Mountpoint (config e) = [] then
        (Fatal (Error ''Mountpoint must be specified. Run with -h.''), s)
      else
        case filepath_Abs e (Mountpoint (config e)) of
          Inl err \<Rightarrow> (Fatal err, s)
        | Inr absoluteMountpoint \<Rightarrow>
            (case checkValidMountpoint (os_Stat e) absoluteMountpoint of
               Some err \<Rightarrow> (Fatal err, s)
             | None \<Rightarrow>
                 (let s1 = initializeCache (initializeProfiler e s) in
                  case initializeFileSystem e s1 of
                    Inl err \<Rightarrow> (Fatal err, s1)
                  | Inr s2 \<Rightarrow>
                      (case nodefs_MountRoot e absoluteMountpoint of
                         Inl err \<Rightarrow>
                           (Fatal err, (emit (MountRoot absoluteMountpoint) s2)\<lparr>server := None\<rparr>)
                       | Inr srv \<Rightarrow>
                           (case startServer e StartTimeout
                                   ((emit (MountRoot absoluteMountpoint) s2)\<lparr>server := Some srv\<rparr>) of
                              (Inl err, s3) \<Rightarrow> (Fatal err, s3)
                            | (Inr serverDone, s3) \<Rightarrow>
                                (let s4 = emit (Log ''mounted'') s3;
                                     s5 = s4\<lparr>mounted := snd (CompareAndSwap False True (mounted s4))\<rparr>
                                 in case wait_loop (loop_events e) s5 of
                                      (False, s6) \<Rightarrow> (Blocked, s6)
                                    | (True, s6) \<Rightarrow>
                                        (case unmountServer s6 of
                                           Inl p \<Rightarrow> (MainPanicked p, s6)
                                         | Inr s7 \<Rightarrow> (MainReturned, s7))))))))"

section \<open>The \<open>fs\<close> helpers exercised by \<open>fs/util_test.go\<close>\<close>

text \<open>
  \<open>util_test.go\<close> calls \<open>asFuseDirEntries\<close>, \<open>summarizeByteSlicesForLog\<close> and
  \<open>newLoggingFile\<close>; their definitions are in files of the \<open>fs\<close> package that are not part of
  \<open>src/\<close>. The types below are the ones the test builds its inputs from.
\<close>

record goadb_DirEntry =
  Name :: string
  Size :: "64 word"
  Mode :: "32 word"
  ModifiedAt :: int

record fuse_DirEntry =
  fuse_Name :: string
  fuse_Mode :: "32 word"

text \<open>
  Modelled from the spec: \<open>asFuseDirEntries\<close> is missing from \<open>src/\<close>. The spec says a remote
  listing "translated through the adapter yields [the] entries in the same order with non-zero
  mode bits preserved": one translated entry per remote entry, in order, carrying the name and
  the mode bits.
\<close>

definition asFuseDirEntries :: "goadb_DirEntry list \<Rightarrow> fuse_DirEntry list" where
  "asFuseDirEntries entries =
     map (\<lambda>entry. \<lparr>fuse_Name = Name entry, fuse_Mode = Mode entry\<rparr>) entries"

text \<open>The values a \<open>[]interface{}\<close> of logged arguments holds in the test.\<close>

datatype go_value = VString string | VBytes "8 word list" | VInt int

function decimal :: "nat \<Rightarrow> string" where
  "decimal n =
     (if n < 10 then [''0123456789'' ! n]
      else decimal (n div 10) @ [''0123456789'' ! (n mod 10)])"
  by pat_completeness auto
termination
  by (relation "measure id") auto

definition show_int :: "int \<Rightarrow> string" where
  "show_int i = (if i < 0 then CHR ''-'' # decimal (nat (- i)) else decimal (nat i))"

text \<open>
  Modelled from the spec: \<open>summarizeByteSlicesForLog\<close> is missing from \<open>src/\<close>. The spec has
  "byte-sequence arguments summarized as length-tagged placeholders rather than raw bytes";
  the test fixes the placeholder's text as \<open>[]byte(n)\<close> with \<open>n\<close> the length. The Go function
  overwrites the slice it is given; the model returns the overwritten slice.
\<close>

fun summarize :: "go_value \<Rightarrow> go_value" where
  "summarize (VBytes b) = VString (''[]byte('' @ decimal (length b) @ '')'')"
| "summarize v = v"

definition summarizeByteSlicesForLog :: "go_value list \<Rightarrow> go_value list" where
  "summarizeByteSlicesForLog vals = map summarize vals"

fun is_VBytes :: "go_value \<Rightarrow> bool" where
  "is_VBytes (VBytes b) = True"
| "is_VBytes _ = False"

text \<open>
  The text of a list of values as \<open>fmt.Sprint\<close> prints a slice: the elements separated by
  spaces, in square brackets (the test expects \<open>[42]\<close> for the single argument 42).
\<close>

fun join_bytes :: "8 word list \<Rightarrow> string" where
  "join_bytes [] = []"
| "join_bytes [x] = decimal (unat x)"
| "join_bytes (x # xs) = decimal (unat x) @ '' '' @ join_bytes xs"

fun show_value :: "go_value \<Rightarrow> string" where
  "show_value (VString s) = s"
| "show_value (VInt i) = show_int i"
| "show_value (VBytes b) = ''['' @ join_bytes b @ '']''"

fun join_values :: "go_value list \<Rightarrow> string" where
  "join_values [] = []"
| "join_values [v] = show_value v"
| "join_values (v # vs) = show_value v @ '' '' @ join_values vs"

definition format_values :: "go_value list \<Rightarrow> string" where
  "format_values vals = ''['' @ join_values vals @ '']''"

text \<open>
  \<open>fuse.Status\<close> is an \<open>int32\<close>, \<open>fuse.OK\<close> is 0 and \<open>Ok()\<close> tests for it. Of the file
  handle only \<open>Fsync\<close>, the operation the test calls, is given a field.
\<close>

type_synonym Status = "32 word"

definition Ok :: "Status \<Rightarrow> bool" where
  "Ok code = (code = 0)"

record File =
  Fsync :: "int \<Rightarrow> Status"

record log_record =
  operation :: string
  args :: string
  results :: string
  time :: string

text \<open>
  Modelled from the spec: \<open>newLoggingFile\<close> and the wrapper it returns are missing from
  \<open>src/\<close>. The spec: the wrapper "wraps any open file handle; for every delegated call,
  records one structured entry: operation name, argument summary (byte-sequence arguments
  summarized as length-tagged placeholders rather than raw bytes), the result/status, and
  elapsed wall-clock time", and "never alters the result or error of the wrapped call".
  \<open>logged\<close> is one delegated call: it is given the operation's name, its arguments, the
  result \<open>r\<close> of the wrapped handle, the values to print for that result, and the clock
  readings (nanoseconds) before and after; it returns \<open>r\<close> and the log with one record added.
  How the result and the elapsed time are printed is not said in the spec: the result is
  printed like the arguments, the elapsed time as nanoseconds.
\<close>

definition logged ::
  "string \<Rightarrow> go_value list \<Rightarrow> 'r \<Rightarrow> go_value list \<Rightarrow> nat \<Rightarrow> nat \<Rightarrow> log_record list
     \<Rightarrow> 'r \<times> log_record list" where
  "logged name arguments r shown start finish log =
     (r, log @ [\<lparr>operation = name,
                 args = format_values (summarizeByteSlicesForLog arguments),
                 results = format_values (summarizeByteSlicesForLog shown),
                 time = decimal (finish - start) @ ''ns''\<rparr>])"

definition newLoggingFile_Fsync ::
  "File \<Rightarrow> nat \<Rightarrow> nat \<Rightarrow> log_record list \<Rightarrow> int \<Rightarrow> Status \<times> log_record list" where
  "newLoggingFile_Fsync file start finish log flags =
     (let code = Fsync file flags
      in logged ''Fsync'' [VInt flags] code [VInt (sint code)] start finish log)"

section \<open>Auxiliary notions for the proofs\<close>





fun finished :: "pc \<Rightarrow> bool" where
  "finished Returned = True"
| "finished Exited = True"
| "finished _ = False"




text \<open>The states a schedule passes through, and how often a flag changes along them.\<close>

fun states :: "nat list \<Rightarrow> proc \<times> pc list \<Rightarrow> proc list" where
  "states [] w = [fst w]"
| "states (i # sch) w = fst w # states sch (sched i w)"

fun flips :: "bool list \<Rightarrow> nat" where
  "flips (a # b # xs) = (if a \<noteq> b then 1 else 0) + flips (b # xs)"
| "flips _ = 0"

subsection \<open>Concrete inputs\<close>

definition mounted_proc :: proc where
  "mounted_proc =
     \<lparr>server = Some 1, mounted = True, unmounted = False,
      effects = [MountRoot ''/mnt'', Serve, WaitMount]\<rparr>"

definition unmounted_proc :: proc where
  "unmounted_proc =
     \<lparr>server = Some 1, mounted = True, unmounted = True,
      effects = [MountRoot ''/mnt'', Serve, WaitMount, Log ''unmounting...'', Unmount,
                 Log ''unmounted.'']\<rparr>"

definition ok_env :: env where
  "ok_env =
     \<lparr>config = \<lparr>DeviceSerial = ''emulator-5554'', Mountpoint = ''mnt'', ServeDebug = False,
                 CacheTtl = 300000000, ConnectionPoolSize = 2\<rparr>,
      filepath_Abs = (\<lambda>p. Inr (''/home/'' @ p)),
      os_Stat = (\<lambda>p. if p = ''/home/mnt'' then Inr \<lparr>IsDir = True\<rparr>
                       else if p = ''/home/file'' then Inr \<lparr>IsDir = False\<rparr>
                       else Inl (Error ''no such file or directory'')),
      net_ListenTCP = None,
      NewAdbFileSystem = None,
      nodefs_MountRoot = (\<lambda>p. Inr 1),
      start_select = ServerReady,
      loop_events = [GotSignal Interrupt]\<rparr>"

definition timeout_env :: env where
  "timeout_env = ok_env\<lparr>start_select := TimerFired\<rparr>"

declare decimal.simps [simp del]

section \<open>Properties\<close>

subsection \<open>Auxiliary lemmas\<close>

lemma unmount_calls_emit:
  "unmount_calls (emit e s) = (if e = Unmount then Suc (unmount_calls s) else unmount_calls s)"
  by (simp add: unmount_calls_def emit_def)

lemma emit_fields [simp]:
  "server (emit e s) = server s" "mounted (emit e s) = mounted s"
  "unmounted (emit e s) = unmounted s"
  by (simp_all add: emit_def)

lemma unmount_calls_flags [simp]:
  "unmount_calls (s\<lparr>unmounted := b\<rparr>) = unmount_calls s"
  "unmount_calls (s\<lparr>mounted := b\<rparr>) = unmount_calls s"
  "unmount_calls (s\<lparr>server := x\<rparr>) = unmount_calls s"
  by (simp_all add: unmount_calls_def)










lemma length_sched [simp]: "length (snd (sched i w)) = length (snd w)"
  by (cases w) (auto simp: sched_def split: prod.splits)

















lemma emit_effects [simp]: "effects (emit e s) = effects s @ [e]"
  by (simp add: emit_def)

lemma initializeProfiler_fields [simp]:
  "server (initializeProfiler e s) = server s"
  "mounted (initializeProfiler e s) = mounted s"
  "unmounted (initializeProfiler e s) = unmounted s"
  "unmount_calls (initializeProfiler e s) = unmount_calls s"
  by (simp_all add: initializeProfiler_def Let_def unmount_calls_emit split: option.splits)

lemma initializeCache_fields [simp]:
  "server (initializeCache s) = server s"
  "mounted (initializeCache s) = mounted s"
  "unmounted (initializeCache s) = unmounted s"
  "unmount_calls (initializeCache s) = unmount_calls s"
  by (simp_all add: initializeCache_def unmount_calls_emit)

lemma initializeFileSystem_Inr: "initializeFileSystem e s = Inr s' \<Longrightarrow> s' = s"
  by (simp add: initializeFileSystem_def split: option.splits)

lemma startServer_fields [simp]:
  "server (snd (startServer e t s)) = server s"
  "mounted (snd (startServer e t s)) = mounted s"
  "unmounted (snd (startServer e t s)) = unmounted s"
  "unmount_calls (snd (startServer e t s)) = unmount_calls s"
  by (simp_all add: startServer_def Let_def unmount_calls_emit split: start_event.splits)

lemma wait_loop_fields [simp]:
  "server (snd (wait_loop evs s)) = server s"
  "mounted (snd (wait_loop evs s)) = mounted s"
  "unmounted (snd (wait_loop evs s)) = unmounted s"
  "unmount_calls (snd (wait_loop evs s)) = unmount_calls s"
  by (induction evs s rule: wait_loop.induct)
     (simp_all add: Let_def unmount_calls_emit split: os_Signal.splits)

lemma unmountServer_mono:
  "unmountServer s = Inr s' \<Longrightarrow> (mounted s \<longrightarrow> mounted s') \<and> (unmounted s \<longrightarrow> unmounted s')"
  by (auto simp: CompareAndSwap_def Let_def split: if_splits)

lemma handleDeviceDisconnected_mono:
  "handleDeviceDisconnected s = Inr s' \<Longrightarrow>
   (mounted s \<longrightarrow> mounted s') \<and> (unmounted s \<longrightarrow> unmounted s')"
  by (auto simp: CompareAndSwap_def Let_def Value_def split: if_splits)

lemma tstep_mono:
  "tstep s p = (s', q) \<Longrightarrow> (mounted s \<longrightarrow> mounted s') \<and> (unmounted s \<longrightarrow> unmounted s')"
  by (induction p arbitrary: q)
     (auto simp: CompareAndSwap_def split: if_splits prod.splits)

lemma sched_mono:
  "(mounted (fst w) \<longrightarrow> mounted (fst (sched i w)))
   \<and> (unmounted (fst w) \<longrightarrow> unmounted (fst (sched i w)))"
proof (cases w)
  case (Pair s pcs)
  show ?thesis
  proof (cases "i < length pcs \<and> \<not> list_ex is_Panicked pcs \<and> \<not> list_ex is_Exited pcs")
    case False
    then have "sched i (s, pcs) = (s, pcs)"
      unfolding sched_def by (simp only: prod.case if_False)
    with Pair show ?thesis by simp
  next
    case True
    obtain s' q where st: "tstep s (pcs ! i) = (s', q)" by (cases "tstep s (pcs ! i)")
    with True have "sched i (s, pcs) = (s', pcs[i := q])" by (simp add: sched_def)
    with Pair tstep_mono [OF st] show ?thesis by simp
  qed
qed

lemma run_mono:
  "(mounted (fst w) \<longrightarrow> mounted (fst (run sch w)))
   \<and> (unmounted (fst w) \<longrightarrow> unmounted (fst (run sch w)))"
proof (induction sch arbitrary: w)
  case Nil
  show ?case by simp
next
  case (Cons i sch)
  from Cons [of "sched i w"] sched_mono [of w i] show ?case by simp
qed

lemma wait_loop_eq:
  "wait_loop evs s = (b, s') \<Longrightarrow>
   server s' = server s \<and> mounted s' = mounted s \<and> unmounted s' = unmounted s
   \<and> unmount_calls s' = unmount_calls s"
  using wait_loop_fields [of evs s] by simp

lemma startServer_eq:
  "startServer e t s = (r, s') \<Longrightarrow>
   server s' = server s \<and> mounted s' = mounted s \<and> unmounted s' = unmounted s
   \<and> unmount_calls s' = unmount_calls s"
  using startServer_fields [of e t s] by simp

lemma main_mono:
  assumes "main e s = (x, s')"
  shows "(mounted s \<longrightarrow> mounted s') \<and> (unmounted s \<longrightarrow> unmounted s')"
  using assms unfolding main_def
  by (auto simp: Let_def CompareAndSwap_def
           split: if_splits sum.splits option.splits prod.splits bool.splits
           dest!: wait_loop_eq startServer_eq unmountServer_mono initializeFileSystem_Inr)


lemma states_hd: "\<exists>ys. states sch w = fst w # ys"
  by (cases sch) simp_all

lemma flips_states:
  assumes step: "\<And>w i. f (fst w) \<Longrightarrow> f (fst (sched i w))"
  shows "flips (map f (states sch w)) = (if \<not> f (fst w) \<and> f (fst (run sch w)) then 1 else 0)"
proof (induction sch arbitrary: w)
  case Nil
  show ?case by simp
next
  case (Cons i sch)
  obtain ys where ys: "states sch (sched i w) = fst (sched i w) # ys"
    using states_hd by blast
  have keep: "f (fst v) \<Longrightarrow> f (fst (run sch v))" for v
    by (induction sch arbitrary: v) (simp_all add: step)
  have "flips (map f (states (i # sch) w))
        = (if f (fst w) \<noteq> f (fst (sched i w)) then 1 else 0)
          + flips (map f (states sch (sched i w)))"
    by (simp add: ys)
  also have "\<dots> = (if f (fst w) \<noteq> f (fst (sched i w)) then 1 else 0)
          + (if \<not> f (fst (sched i w)) \<and> f (fst (run sch (sched i w))) then 1 else 0)"
    by (simp only: Cons)
  also have "\<dots> = (if \<not> f (fst w) \<and> f (fst (run (i # sch) w)) then 1 else 0)"
    using step [of w i] keep [of "sched i w"] by auto
  finally show ?case .
qed

lemma flips_flags:
  "flips (map mounted (states sch w)) \<le> 1 \<and> flips (map unmounted (states sch w)) \<le> 1"
  using flips_states [of mounted sch w] flips_states [of unmounted sch w] sched_mono
  by simp

lemma sched_single:
  "sched 0 (s, [p])
   = (if is_Panicked p \<or> is_Exited p then (s, [p]) else (fst (tstep s p), [snd (tstep s p)]))"
  by (simp add: sched_def split: prod.splits)

lemma unmountServer_steps:
  "run [0, 0, 0, 0, 0, 0] (s, [US_server])
   = (case unmountServer s of Inr s' \<Rightarrow> (s', [Returned]) | Inl p \<Rightarrow> (s, [Panicked p]))"
  by (cases "server s = None"; cases "mounted s"; cases "unmounted s")
     (simp_all add: sched_single CompareAndSwap_def Value_def)

lemma handleDeviceDisconnected_steps:
  "run [0, 0, 0, 0, 0, 0, 0, 0, 0] (s, [HD_mounted])
   = (case handleDeviceDisconnected s of
        Inr s' \<Rightarrow> (s', [Returned]) | Inl p \<Rightarrow> (emit (Log ''device disconnected, unmounting...'') s, [Panicked p]))"
  by (cases "server s = None"; cases "mounted s"; cases "unmounted s")
     (simp_all add: sched_single CompareAndSwap_def Value_def)

lemma deferred_unmountServer_steps:
  "run [0, 0, 0, 0, 0, 0] (s, [Deferred US_server])
   = (case unmountServer s of Inr s' \<Rightarrow> (s', [Exited]) | Inl p \<Rightarrow> (s, [Panicked p]))"
  by (cases "server s = None"; cases "mounted s"; cases "unmounted s")
     (simp_all add: sched_single CompareAndSwap_def Value_def)

lemma decimal_nonempty: "decimal n \<noteq> []"
  by (subst decimal.simps) simp

lemma format_values_nonempty: "format_values vals \<noteq> []"
  by (simp add: format_values_def)

lemma summarize_not_bytes: "\<not> is_VBytes (summarize v)"
  by (cases v) simp_all

subsection \<open>The claims\<close>




text \<open>
  C2. When \<open>handleDeviceDisconnected\<close> runs while \<open>mounted\<close> is still false, or when
  \<open>unmounted\<close> is already true, it returns normally (no panic) and leaves the whole process
  state as it was: no flag changes, nothing is logged and \<open>server.Unmount()\<close> is not called.
  Statement by statement, the invocation has returned after its two reads at the latest.
\<close>

theorem handleDeviceDisconnected_early_noop:
  assumes "\<not> mounted s \<or> unmounted s"
  shows "handleDeviceDisconnected s = Inr s
         \<and> run [0, 0] (s, [HD_mounted]) = (s, [Returned])"
  using assms by (auto simp: Value_def sched_single)

theorem handleDeviceDisconnected_early_noop_witness:
  "\<not> mounted init_proc
   \<and> handleDeviceDisconnected init_proc = Inr init_proc
   \<and> run [0, 0] (init_proc, [HD_mounted]) = (init_proc, [Returned])
   \<and> unmounted unmounted_proc
   \<and> handleDeviceDisconnected unmounted_proc = Inr unmounted_proc
   \<and> run [0, 0] (unmounted_proc, [HD_mounted]) = (unmounted_proc, [Returned])"
proof -
  have a: "\<not> mounted init_proc" by (simp add: init_proc_def)
  have b: "unmounted unmounted_proc" by (simp add: unmounted_proc_def)
  from handleDeviceDisconnected_early_noop [of init_proc]
       handleDeviceDisconnected_early_noop [of unmounted_proc] a b
  show ?thesis by simp
qed

text \<open>
  C3. When the configuration is valid, the mount call succeeds and the \<open>select\<close> in
  \<open>startServer\<close> proceeds with the timer (neither \<open>serverReady\<close> nor \<open>serverDone\<close> was closed
  before \<open>StartTimeout\<close>, five seconds, had passed), then \<open>startServer\<close> returns the timeout
  error, \<open>main\<close> exits through \<open>cli.Log.Fatal\<close> with that error, \<open>server.Unmount()\<close> has not
  been called, \<open>mounted\<close> is still false, and a disconnect callback arriving in that state does
  nothing.
\<close>

theorem start_timeout_is_fatal:
  assumes "DeviceSerial (config e) \<noteq> []" and "Mountpoint (config e) \<noteq> []"
      and "filepath_Abs e (Mountpoint (config e)) = Inr absoluteMountpoint"
      and "checkValidMountpoint (os_Stat e) absoluteMountpoint = None"
      and "NewAdbFileSystem e = None"
      and "nodefs_MountRoot e absoluteMountpoint = Inr srv"
      and "start_select e = TimerFired"
  shows "fst (startServer e t s) = Inl (ErrorAfter ''server failed to start after'' t)
         \<and> unmount_calls (snd (startServer e t s)) = unmount_calls s
         \<and> StartTimeout = 5 * 1000000000
         \<and> fst (main e init_proc) = Fatal (ErrorAfter ''server failed to start after'' StartTimeout)
         \<and> unmount_calls (snd (main e init_proc)) = 0
         \<and> \<not> mounted (snd (main e init_proc))
         \<and> handleDeviceDisconnected (snd (main e init_proc)) = Inr (snd (main e init_proc))"
proof -
  have st: "startServer e t s
            = (Inl (ErrorAfter ''server failed to start after'' t), emit WaitMount (emit Serve s))"
    for t s
    using assms(7) by (simp add: startServer_def Let_def)
  have m: "main e init_proc
           = (Fatal (ErrorAfter ''server failed to start after'' StartTimeout),
              emit WaitMount (emit Serve
                ((emit (MountRoot absoluteMountpoint)
                   (initializeCache (initializeProfiler e init_proc)))\<lparr>server := Some srv\<rparr>)))"
    using assms(1-6) by (simp add: main_def Let_def initializeFileSystem_def st)
  have u0: "unmount_calls init_proc = 0" "\<not> mounted init_proc"
    by (simp_all add: init_proc_def unmount_calls_def)
  have u: "unmount_calls (snd (main e init_proc)) = 0" "\<not> mounted (snd (main e init_proc))"
    using u0 by (simp_all add: m unmount_calls_emit)
  then have h: "handleDeviceDisconnected (snd (main e init_proc)) = Inr (snd (main e init_proc))"
    by (simp add: Value_def)
  show ?thesis using u h by (simp add: st m unmount_calls_emit StartTimeout_def Second_def)
qed

theorem start_timeout_is_fatal_witness:
  "DeviceSerial (config timeout_env) \<noteq> [] \<and> Mountpoint (config timeout_env) \<noteq> []
   \<and> filepath_Abs timeout_env (Mountpoint (config timeout_env)) = Inr ''/home/mnt''
   \<and> checkValidMountpoint (os_Stat timeout_env) ''/home/mnt'' = None
   \<and> NewAdbFileSystem timeout_env = None
   \<and> nodefs_MountRoot timeout_env ''/home/mnt'' = Inr 1
   \<and> start_select timeout_env = TimerFired
   \<and> fst (main timeout_env init_proc)
       = Fatal (ErrorAfter ''server failed to start after'' 5000000000)
   \<and> unmount_calls (snd (main timeout_env init_proc)) = 0"
proof -
  have h1: "DeviceSerial (config timeout_env) \<noteq> []"
   and h2: "Mountpoint (config timeout_env) \<noteq> []"
   and h3: "filepath_Abs timeout_env (Mountpoint (config timeout_env)) = Inr ''/home/mnt''"
   and h4: "checkValidMountpoint (os_Stat timeout_env) ''/home/mnt'' = None"
   and h5: "NewAdbFileSystem timeout_env = None"
   and h6: "nodefs_MountRoot timeout_env ''/home/mnt'' = Inr 1"
   and h7: "start_select timeout_env = TimerFired"
    by (simp_all add: timeout_env_def ok_env_def checkValidMountpoint_def)
  from start_timeout_is_fatal [OF h1 h2 h3 h4 h5 h6 h7] h1 h2 h3 h4 h5 h6 h7
  show ?thesis by (simp add: StartTimeout_def Second_def)
qed

text \<open>
  C4. Neither flag is ever reset. Whatever the program does, one statement of the unmount
  path, a whole call of \<open>unmountServer\<close> or \<open>handleDeviceDisconnected\<close>, the whole of \<open>main\<close>,
  or any interleaved run of invocations, a flag that was true before is true afterwards.
  Along any run each flag changes its value at most once, and the only write to a flag,
  \<open>CompareAndSwap(false, true)\<close>, leaves it true and reports a swap exactly when it was false.
\<close>

theorem flags_monotonic:
  "(tstep s p = (s1, q) \<longrightarrow> (mounted s \<longrightarrow> mounted s1) \<and> (unmounted s \<longrightarrow> unmounted s1))
   \<and> (unmountServer s = Inr s2 \<longrightarrow> (mounted s \<longrightarrow> mounted s2) \<and> (unmounted s \<longrightarrow> unmounted s2))
   \<and> (handleDeviceDisconnected s = Inr s3 \<longrightarrow>
         (mounted s \<longrightarrow> mounted s3) \<and> (unmounted s \<longrightarrow> unmounted s3))
   \<and> (main e s = (x, s4) \<longrightarrow> (mounted s \<longrightarrow> mounted s4) \<and> (unmounted s \<longrightarrow> unmounted s4))
   \<and> (run sch (s, pcs) = (s5, pcs') \<longrightarrow>
         (mounted s \<longrightarrow> mounted s5) \<and> (unmounted s \<longrightarrow> unmounted s5))
   \<and> flips (map mounted (states sch (s, pcs))) \<le> 1
   \<and> flips (map unmounted (states sch (s, pcs))) \<le> 1
   \<and> CompareAndSwap False True b = (\<not> b, True)"
proof -
  have r: "run sch (s, pcs) = (s5, pcs') \<longrightarrow>
           (mounted s \<longrightarrow> mounted s5) \<and> (unmounted s \<longrightarrow> unmounted s5)"
    using run_mono [of "(s, pcs)" sch] by auto
  have f: "flips (map mounted (states sch (s, pcs))) \<le> 1"
          "flips (map unmounted (states sch (s, pcs))) \<le> 1"
    using flips_flags [of sch "(s, pcs)"] by simp_all
  have c: "CompareAndSwap False True b = (\<not> b, True)"
    by (simp add: CompareAndSwap_def)
  from tstep_mono [of s p s1 q] unmountServer_mono [of s s2] handleDeviceDisconnected_mono [of s s3]
    main_mono [of e s x s4] r f c
  show ?thesis by blast
qed

theorem flags_monotonic_witness:
  "tstep unmounted_proc US_cas = (unmounted_proc, Returned)
   \<and> unmountServer unmounted_proc = Inr unmounted_proc
   \<and> handleDeviceDisconnected unmounted_proc = Inr unmounted_proc
   \<and> main ok_env unmounted_proc
       = (MainReturned,
          unmounted_proc\<lparr>effects := effects unmounted_proc @
             [Log ''stat cache ttl:'', MountRoot ''/home/mnt'', Serve, WaitMount,
              Log ''server ready.'', Log ''mounted'', Log ''got signal'', Log ''exiting...'']\<rparr>)
   \<and> run [0, 1, 0, 0] (unmounted_proc, [US_server, HD_mounted])
       = (unmounted_proc, [Returned, HD_unmounted])
   \<and> mounted unmounted_proc \<and> unmounted unmounted_proc
   \<and> flips (map unmounted (states [0, 0, 0, 0, 0, 0] (mounted_proc, [US_server]))) = 1"
proof -
  have h1: "tstep unmounted_proc US_cas = (unmounted_proc, Returned)" by code_simp
  have h2: "unmountServer unmounted_proc = Inr unmounted_proc" by code_simp
  have h3: "handleDeviceDisconnected unmounted_proc = Inr unmounted_proc" by code_simp
  have h4: "main ok_env unmounted_proc
       = (MainReturned,
          unmounted_proc\<lparr>effects := effects unmounted_proc @
             [Log ''stat cache ttl:'', MountRoot ''/home/mnt'', Serve, WaitMount,
              Log ''server ready.'', Log ''mounted'', Log ''got signal'', Log ''exiting...'']\<rparr>)"
    by (simp add: main_def ok_env_def unmounted_proc_def checkValidMountpoint_def
        initializeProfiler_def initializeCache_def initializeFileSystem_def startServer_def
        StartTimeout_def Second_def emit_def CompareAndSwap_def Value_def)
  have h5: "run [0, 1, 0, 0] (unmounted_proc, [US_server, HD_mounted])
       = (unmounted_proc, [Returned, HD_unmounted])" by code_simp
  have h6: "mounted unmounted_proc \<and> unmounted unmounted_proc" by code_simp
  have h7: "flips (map unmounted (states [0, 0, 0, 0, 0, 0] (mounted_proc, [US_server]))) = 1"
    by code_simp
  from flags_monotonic [of unmounted_proc US_cas unmounted_proc Returned unmounted_proc
      unmounted_proc ok_env MainReturned _ "[0, 1, 0, 0]" "[US_server, HD_mounted]"
      unmounted_proc "[Returned, HD_unmounted]"]
    flags_monotonic [of mounted_proc _ _ _ _ _ _ _ _ "[0, 0, 0, 0, 0, 0]" "[US_server]"]
    h1 h2 h3 h4 h5 h6 h7
  show ?thesis by (simp only: simp_thms)
qed

text \<open>
  C5. When the device serial is empty, or the mountpoint is empty, or \<open>filepath.Abs\<close> fails, or
  \<open>os.Stat\<close> of the absolute mountpoint fails (for instance because nothing exists there), or
  what exists there is not a directory, \<open>main\<close> exits through \<open>cli.Log.Fatal\<close> with the process
  state untouched: nothing has been logged to the trace, \<open>nodefs.MountRoot\<close> has not been
  called, and \<open>server\<close> is still what it was.
\<close>

theorem bad_config_is_fatal_before_mount:
  assumes "DeviceSerial (config e) = [] \<or> Mountpoint (config e) = []
           \<or> (\<exists>err. filepath_Abs e (Mountpoint (config e)) = Inl err)
           \<or> (\<exists>p. filepath_Abs e (Mountpoint (config e)) = Inr p
                  \<and> ((\<exists>err. os_Stat e p = Inl err) \<or> (\<exists>info. os_Stat e p = Inr info \<and> \<not> IsDir info)))"
  shows "(\<exists>err. main e s = (Fatal err, s))
         \<and> (\<forall>p. MountRoot p \<notin> set (effects (snd (main e init_proc))))
         \<and> effects (snd (main e init_proc)) = []"
proof -
  have "\<exists>err. main e s = (Fatal err, s)" for s
    using assms
    by (auto simp: main_def checkValidMountpoint_def split: sum.splits option.splits)
  from this [of s] this [of init_proc] show ?thesis
    by (auto simp: init_proc_def)
qed

theorem bad_config_is_fatal_before_mount_witness:
  "DeviceSerial (config (ok_env\<lparr>config := (config ok_env)\<lparr>DeviceSerial := []\<rparr>\<rparr>)) = []
   \<and> main (ok_env\<lparr>config := (config ok_env)\<lparr>DeviceSerial := []\<rparr>\<rparr>) init_proc
       = (Fatal (Error ''Device serial must be specified. Run with -h.''), init_proc)
   \<and> filepath_Abs (ok_env\<lparr>config := (config ok_env)\<lparr>Mountpoint := ''file''\<rparr>\<rparr>) ''file''
       = Inr ''/home/file''
   \<and> os_Stat (ok_env\<lparr>config := (config ok_env)\<lparr>Mountpoint := ''file''\<rparr>\<rparr>) ''/home/file''
       = Inr \<lparr>IsDir = False\<rparr>
   \<and> main (ok_env\<lparr>config := (config ok_env)\<lparr>Mountpoint := ''file''\<rparr>\<rparr>) init_proc
       = (Fatal (Error ''path is not a directory:/home/file''), init_proc)
   \<and> effects (snd (main (ok_env\<lparr>config := (config ok_env)\<lparr>Mountpoint := ''file''\<rparr>\<rparr>) init_proc)) = []"
proof -
  have a: "DeviceSerial (config (ok_env\<lparr>config := (config ok_env)\<lparr>DeviceSerial := []\<rparr>\<rparr>)) = []"
    by simp
  have b: "filepath_Abs (ok_env\<lparr>config := (config ok_env)\<lparr>Mountpoint := ''file''\<rparr>\<rparr>)
             (Mountpoint (config (ok_env\<lparr>config := (config ok_env)\<lparr>Mountpoint := ''file''\<rparr>\<rparr>)))
           = Inr ''/home/file''
         \<and> os_Stat (ok_env\<lparr>config := (config ok_env)\<lparr>Mountpoint := ''file''\<rparr>\<rparr>) ''/home/file''
           = Inr \<lparr>IsDir = False\<rparr> \<and> \<not> IsDir \<lparr>IsDir = False\<rparr>"
    by (simp add: ok_env_def)
  have c: "main (ok_env\<lparr>config := (config ok_env)\<lparr>DeviceSerial := []\<rparr>\<rparr>) init_proc
       = (Fatal (Error ''Device serial must be specified. Run with -h.''), init_proc)"
    by (simp add: main_def)
  have d: "main (ok_env\<lparr>config := (config ok_env)\<lparr>Mountpoint := ''file''\<rparr>\<rparr>) init_proc
       = (Fatal (Error ''path is not a directory:/home/file''), init_proc)"
    by (simp add: main_def ok_env_def checkValidMountpoint_def)
  from bad_config_is_fatal_before_mount
         [of "ok_env\<lparr>config := (config ok_env)\<lparr>DeviceSerial := []\<rparr>\<rparr>" init_proc]
       bad_config_is_fatal_before_mount
         [of "ok_env\<lparr>config := (config ok_env)\<lparr>Mountpoint := ''file''\<rparr>\<rparr>" init_proc]
       a b c d
  show ?thesis by simp
qed

text \<open>
  C6. The logging wrapper hands back exactly what the wrapped handle returned, for any
  delegated call and in particular for \<open>Fsync\<close>: a status that is not OK stays the same
  status, not OK.
\<close>

theorem logging_file_keeps_result:
  "fst (logged name arguments r shown t0 t1 lg) = r
   \<and> fst (newLoggingFile_Fsync inner t0 t1 lg flags) = Fsync inner flags
   \<and> (\<not> Ok (Fsync inner flags) \<longrightarrow> \<not> Ok (fst (newLoggingFile_Fsync inner t0 t1 lg flags)))"
  by (simp add: logged_def newLoggingFile_Fsync_def Let_def)

theorem logging_file_keeps_result_witness:
  "\<not> Ok (Fsync \<lparr>Fsync = (\<lambda>flags. 38)\<rparr> 42)
   \<and> fst (newLoggingFile_Fsync \<lparr>Fsync = (\<lambda>flags. 38)\<rparr> 1000 1750 [] 42) = 38
   \<and> \<not> Ok (fst (newLoggingFile_Fsync \<lparr>Fsync = (\<lambda>flags. 38)\<rparr> 1000 1750 [] 42))"
proof -
  have h: "\<not> Ok (Fsync \<lparr>Fsync = (\<lambda>flags. 38)\<rparr> 42)" by (simp add: Ok_def)
  from logging_file_keeps_result
         [where inner = "\<lparr>Fsync = (\<lambda>flags. 38)\<rparr>" and ?t0.0 = "1000" and ?t1.0 = "1750"
            and lg = "[]" and flags = "42" and name = "''Fsync''" and arguments = "[VInt 42]"
            and r = "38 :: Status" and shown = "[VInt 38]"] h
  show ?thesis by simp
qed

text \<open>
  C7. The two entries of the test, \<open>/foo.txt\<close> (size 24, mode 0444) and \<open>/bar.txt\<close> (size 42,
  mode 0444), translate to exactly two entries, \<open>/foo.txt\<close> first and \<open>/bar.txt\<close> second, each
  with non-zero mode bits. (0444 octal is 292.)
\<close>

theorem asFuseDirEntries_two_entries:
  "length (asFuseDirEntries
      [\<lparr>Name = ''/foo.txt'', Size = 24, Mode = 292, ModifiedAt = 0\<rparr>,
       \<lparr>Name = ''/bar.txt'', Size = 42, Mode = 292, ModifiedAt = 0\<rparr>]) = 2
   \<and> fuse_Name (asFuseDirEntries
      [\<lparr>Name = ''/foo.txt'', Size = 24, Mode = 292, ModifiedAt = 0\<rparr>,
       \<lparr>Name = ''/bar.txt'', Size = 42, Mode = 292, ModifiedAt = 0\<rparr>] ! 0) = ''/foo.txt''
   \<and> fuse_Mode (asFuseDirEntries
      [\<lparr>Name = ''/foo.txt'', Size = 24, Mode = 292, ModifiedAt = 0\<rparr>,
       \<lparr>Name = ''/bar.txt'', Size = 42, Mode = 292, ModifiedAt = 0\<rparr>] ! 0) \<noteq> 0
   \<and> fuse_Name (asFuseDirEntries
      [\<lparr>Name = ''/foo.txt'', Size = 24, Mode = 292, ModifiedAt = 0\<rparr>,
       \<lparr>Name = ''/bar.txt'', Size = 42, Mode = 292, ModifiedAt = 0\<rparr>] ! 1) = ''/bar.txt''
   \<and> fuse_Mode (asFuseDirEntries
      [\<lparr>Name = ''/foo.txt'', Size = 24, Mode = 292, ModifiedAt = 0\<rparr>,
       \<lparr>Name = ''/bar.txt'', Size = 42, Mode = 292, ModifiedAt = 0\<rparr>] ! 1) \<noteq> 0
   \<and> asFuseDirEntries
      [\<lparr>Name = ''/foo.txt'', Size = 24, Mode = 292, ModifiedAt = 0\<rparr>,
       \<lparr>Name = ''/bar.txt'', Size = 42, Mode = 292, ModifiedAt = 0\<rparr>]
     = [\<lparr>fuse_Name = ''/foo.txt'', fuse_Mode = 292\<rparr>, \<lparr>fuse_Name = ''/bar.txt'', fuse_Mode = 292\<rparr>]"
  by (simp add: asFuseDirEntries_def)

text \<open>
  C8. \<open>summarizeByteSlicesForLog\<close> keeps the number and the positions of the values; a byte
  slice is replaced, where it stands, by the string \<open>[]byte(n)\<close> with \<open>n\<close> its length in
  decimal, every other value is left as it is, and no byte slice remains in the result.
\<close>

theorem summarizeByteSlicesForLog_placeholders:
  "length (summarizeByteSlicesForLog vals) = length vals
   \<and> (\<forall>i < length vals.
         (case vals ! i of
            VBytes b \<Rightarrow> summarizeByteSlicesForLog vals ! i
                           = VString (''[]byte('' @ decimal (length b) @ '')'')
          | v \<Rightarrow> summarizeByteSlicesForLog vals ! i = v))
   \<and> (\<forall>v \<in> set (summarizeByteSlicesForLog vals). \<not> is_VBytes v)"
  by (auto simp: summarizeByteSlicesForLog_def summarize_not_bytes split: go_value.splits)

theorem summarizeByteSlicesForLog_placeholders_witness:
  "summarizeByteSlicesForLog [VString ''foo'', VBytes [98, 97, 114], VInt 42]
     = [VString ''foo'', VString ''[]byte(3)'', VInt 42]
   \<and> (1::nat) < length [VString ''foo'', VBytes [98, 97, 114], VInt 42]
   \<and> summarizeByteSlicesForLog [VString ''foo'', VBytes [98, 97, 114], VInt 42] ! 1
       = VString (''[]byte('' @ decimal (length [98, 97, 114 :: 8 word]) @ '')'')
   \<and> VString ''[]byte(3)'' \<in> set (summarizeByteSlicesForLog [VString ''foo'', VBytes [98, 97, 114], VInt 42])
   \<and> \<not> is_VBytes (VString ''[]byte(3)'')"
proof -
  have e: "summarizeByteSlicesForLog [VString ''foo'', VBytes [98, 97, 114], VInt 42]
             = [VString ''foo'', VString ''[]byte(3)'', VInt 42]"
    by code_simp
  have d: "decimal (length [98, 97, 114 :: 8 word]) = ''3''" by code_simp
  have l: "(1::nat) < length [VString ''foo'', VBytes [98, 97, 114], VInt 42]" by simp
  note all = summarizeByteSlicesForLog_placeholders
               [of "[VString ''foo'', VBytes [98, 97, 114], VInt 42]",
                THEN conjunct2, THEN conjunct1, rule_format, OF l]
  then have n: "summarizeByteSlicesForLog [VString ''foo'', VBytes [98, 97, 114], VInt 42] ! 1
       = VString (''[]byte('' @ decimal (length [98, 97, 114 :: 8 word]) @ '')'')"
    by simp
  show ?thesis using e n by simp
qed

text \<open>
  C9. \<open>Fsync(42)\<close> on a wrapped handle adds exactly one record to the log; its operation is
  \<open>Fsync\<close>, its argument summary is \<open>[42]\<close>, and neither its result field nor its time field
  is empty.
\<close>

theorem logging_file_Fsync_record:
  "length (snd (newLoggingFile_Fsync inner t0 t1 lg 42)) = length lg + 1
   \<and> butlast (snd (newLoggingFile_Fsync inner t0 t1 lg 42)) = lg
   \<and> operation (last (snd (newLoggingFile_Fsync inner t0 t1 lg 42))) = ''Fsync''
   \<and> args (last (snd (newLoggingFile_Fsync inner t0 t1 lg 42))) = ''[42]''
   \<and> results (last (snd (newLoggingFile_Fsync inner t0 t1 lg 42))) \<noteq> []
   \<and> time (last (snd (newLoggingFile_Fsync inner t0 t1 lg 42))) \<noteq> []"
proof -
  have a: "format_values (summarizeByteSlicesForLog [VInt 42]) = ''[42]''"
    by code_simp
  show ?thesis
    by (simp add: newLoggingFile_Fsync_def logged_def Let_def a format_values_nonempty
          decimal_nonempty)
qed

text \<open>
  C10. \<open>unmountServer\<close> panics exactly when \<open>server\<close> is nil or \<open>mounted\<close> is false (with the
  message of the first test that fails), so after a successful mount it returns normally.
  \<open>handleDeviceDisconnected\<close> returns, leaving the state alone, whenever \<open>mounted\<close> is false or
  \<open>unmounted\<close> is true; in particular before the mount, where a direct call of
  \<open>unmountServer\<close> would panic, the guard is what keeps the callback from panicking.
\<close>

theorem unmountServer_panics_unless_mounted:
  "((server s = None \<or> \<not> mounted s) \<longleftrightarrow> (\<exists>p. unmountServer s = Inl p))
   \<and> (server s = None \<longrightarrow>
        unmountServer s = Inl (Panic ''attempted to unmount server before creating it''))
   \<and> (server s \<noteq> None \<and> \<not> mounted s \<longrightarrow>
        unmountServer s = Inl (Panic ''attempted to unmount server before mounting it''))
   \<and> (server s \<noteq> None \<and> mounted s \<longrightarrow> (\<exists>s'. unmountServer s = Inr s'))
   \<and> (\<not> mounted s \<or> unmounted s \<longrightarrow> handleDeviceDisconnected s = Inr s)
   \<and> (\<not> mounted s \<longrightarrow> (\<exists>p. unmountServer s = Inl p) \<and> handleDeviceDisconnected s = Inr s)"
  by (auto simp: Value_def CompareAndSwap_def Let_def)

theorem unmountServer_panics_unless_mounted_witness:
  "server init_proc = None \<and> \<not> mounted init_proc
   \<and> unmountServer init_proc = Inl (Panic ''attempted to unmount server before creating it'')
   \<and> handleDeviceDisconnected init_proc = Inr init_proc
   \<and> server (init_proc\<lparr>server := Some 1\<rparr>) \<noteq> None \<and> \<not> mounted (init_proc\<lparr>server := Some 1\<rparr>)
   \<and> unmountServer (init_proc\<lparr>server := Some 1\<rparr>)
       = Inl (Panic ''attempted to unmount server before mounting it'')
   \<and> server unmounted_proc \<noteq> None \<and> mounted unmounted_proc \<and> unmounted unmounted_proc
   \<and> unmountServer unmounted_proc = Inr unmounted_proc
   \<and> handleDeviceDisconnected unmounted_proc = Inr unmounted_proc"
proof -
  have a: "server init_proc = None \<and> \<not> mounted init_proc" by code_simp
  have b: "server (init_proc\<lparr>server := Some 1\<rparr>) \<noteq> None \<and> \<not> mounted (init_proc\<lparr>server := Some 1\<rparr>)"
    by code_simp
  have c: "server unmounted_proc \<noteq> None \<and> mounted unmounted_proc \<and> unmounted unmounted_proc"
    by code_simp
  have d: "unmountServer unmounted_proc = Inr unmounted_proc" by code_simp
  from unmountServer_panics_unless_mounted [of init_proc]
    unmountServer_panics_unless_mounted [of "init_proc\<lparr>server := Some 1\<rparr>"]
    unmountServer_panics_unless_mounted [of unmounted_proc] a b c d
  show ?thesis by simp
qed

end
